theory Spec2Isabelle
  imports Main "HOL-Library.Word"
begin

unbundle bit_operations_syntax

section \<open>Shallow embedding of certificate/certhandler.go\<close>

text \<open>
  Go strings are byte sequences and are modelled as \<open>string\<close> (a list of 8-bit
  characters); a byte slice is a list of 8-bit words. Functions of the Go standard library
  and of the repository's \<open>key\<close> package, whose code is not part of the file under
  study, are parameters of the model. A call of \<open>log.Fatal\<close> and a run-time panic are
  values of the type \<open>failure\<close>; a function that may end in one returns
  \<open>failure + 'a\<close>.
\<close>

type_synonym byte = "8 word"

type_synonym go_error = string

datatype failure =
    Fatal string  \<comment> \<open>\<open>log.Fatal\<close>: the process exits\<close>
  | Panic string  \<comment> \<open>a run-time panic\<close>

subsection \<open>Key usage and extended key usage (crypto/x509 constants)\<close>

text \<open>
  \<open>x509.KeyUsage\<close> is a Go \<open>int\<close> used as a bit set; the only operation the code
  applies is \<open>|\<close> on the constants below, all smaller than \<open>2 ^ 9\<close>, so no overflow
  can occur and the unbounded \<open>int\<close> is faithful.
\<close>

type_synonym KeyUsage = int

definition KeyUsageDigitalSignature :: KeyUsage where
  "KeyUsageDigitalSignature = push_bit 0 1"

definition KeyUsageContentCommitment :: KeyUsage where
  "KeyUsageContentCommitment = push_bit 1 1"

definition KeyUsageKeyEncipherment :: KeyUsage where
  "KeyUsageKeyEncipherment = push_bit 2 1"

definition KeyUsageDataEncipherment :: KeyUsage where
  "KeyUsageDataEncipherment = push_bit 3 1"

definition KeyUsageKeyAgreement :: KeyUsage where
  "KeyUsageKeyAgreement = push_bit 4 1"

definition KeyUsageCertSign :: KeyUsage where
  "KeyUsageCertSign = push_bit 5 1"

definition KeyUsageCRLSign :: KeyUsage where
  "KeyUsageCRLSign = push_bit 6 1"

definition KeyUsageEncipherOnly :: KeyUsage where
  "KeyUsageEncipherOnly = push_bit 7 1"

definition KeyUsageDecipherOnly :: KeyUsage where
  "KeyUsageDecipherOnly = push_bit 8 1"

lemmas KeyUsage_defs =
  KeyUsageDigitalSignature_def KeyUsageContentCommitment_def KeyUsageKeyEncipherment_def
  KeyUsageDataEncipherment_def KeyUsageKeyAgreement_def KeyUsageCertSign_def
  KeyUsageCRLSign_def KeyUsageEncipherOnly_def KeyUsageDecipherOnly_def

datatype ExtKeyUsage =
    ExtKeyUsageAny
  | ExtKeyUsageServerAuth
  | ExtKeyUsageClientAuth
  | ExtKeyUsageCodeSigning
  | ExtKeyUsageEmailProtection
  | ExtKeyUsageIPSECEndSystem
  | ExtKeyUsageIPSECTunnel
  | ExtKeyUsageIPSECUser
  | ExtKeyUsageTimeStamping
  | ExtKeyUsageOCSPSigning
  | ExtKeyUsageMicrosoftServerGatedCrypto
  | ExtKeyUsageNetscapeServerGatedCrypto

subsection \<open>getUsage\<close>

definition getDefaultKeyUsage :: "bool \<Rightarrow> KeyUsage" where
  "getDefaultKeyUsage ca =
     (if ca then KeyUsageCRLSign OR KeyUsageCertSign
      else KeyUsageKeyEncipherment OR KeyUsageDigitalSignature)"

definition getDefaultExtKeyUsage :: "bool \<Rightarrow> ExtKeyUsage list" where
  "getDefaultExtKeyUsage ca =
     (if ca then [] else [ExtKeyUsageClientAuth, ExtKeyUsageServerAuth])"

text \<open>
  One pass of the body of the \<open>for _, key := range usage\<close> loop: the \<open>switch\<close> on the
  token, applied to the two accumulators \<open>keyUsage\<close> and \<open>extKeyUsage\<close>. A token that
  matches no \<open>case\<close> leaves both unchanged.
\<close>

definition usage_step :: "string \<Rightarrow> KeyUsage \<times> ExtKeyUsage list \<Rightarrow> KeyUsage \<times> ExtKeyUsage list" where
  "usage_step tok acc =
     (case acc of (keyUsage, extKeyUsage) \<Rightarrow>
        if tok = ''crlsign'' then (keyUsage OR KeyUsageCRLSign, extKeyUsage)
        else if tok = ''certsign'' then (keyUsage OR KeyUsageCertSign, extKeyUsage)
        else if tok = ''encipherment'' then (keyUsage OR KeyUsageKeyEncipherment, extKeyUsage)
        else if tok = ''signature'' then (keyUsage OR KeyUsageDigitalSignature, extKeyUsage)
        else if tok = ''contentcommitment'' then (keyUsage OR KeyUsageContentCommitment, extKeyUsage)
        else if tok = ''clientauth'' then (keyUsage, extKeyUsage @ [ExtKeyUsageClientAuth])
        else if tok = ''serverauth'' then (keyUsage, extKeyUsage @ [ExtKeyUsageServerAuth])
        else (keyUsage, extKeyUsage))"

fun usage_loop :: "string list \<Rightarrow> KeyUsage \<times> ExtKeyUsage list \<Rightarrow> KeyUsage \<times> ExtKeyUsage list" where
  "usage_loop [] acc = acc"
| "usage_loop (tok # rest) acc = usage_loop rest (usage_step tok acc)"

definition getUsage :: "string list \<Rightarrow> bool \<Rightarrow> KeyUsage \<times> ExtKeyUsage list" where
  "getUsage usage ca =
     (if length usage = 0 then (getDefaultKeyUsage ca, getDefaultExtKeyUsage ca)
      else usage_loop usage (0, []))"

subsection \<open>signatureAlgorithm\<close>

datatype SignatureAlgorithm =
    UnknownSignatureAlgorithm
  | MD2WithRSA
  | MD5WithRSA
  | SHA1WithRSA
  | SHA256WithRSA
  | SHA384WithRSA
  | SHA512WithRSA
  | DSAWithSHA1
  | DSAWithSHA256
  | ECDSAWithSHA1
  | ECDSAWithSHA256
  | ECDSAWithSHA384
  | ECDSAWithSHA512
  | SHA256WithRSAPSS
  | SHA384WithRSAPSS
  | SHA512WithRSAPSS
  | PureEd25519

text \<open>
  The dynamic type of the \<open>interface{}\<close> value held in \<open>Certificate.PrivateKey\<close>:
  a \<open>*rsa.PrivateKey\<close>, a \<open>*ecdsa.PrivateKey\<close>, or anything else (\<open>nil\<close> included).
  The key material itself is opaque to this file and is carried as bytes.
\<close>

datatype PrivateKey =
    RsaPrivateKey "byte list"
  | EcdsaPrivateKey "byte list"
  | OtherValue

definition findEcdsaSignALg :: "string \<Rightarrow> SignatureAlgorithm" where
  "findEcdsaSignALg algType =
     (if algType = ''SHA1'' then ECDSAWithSHA1
      else if algType = ''SHA256'' then ECDSAWithSHA256
      else if algType = ''SHA384'' then ECDSAWithSHA384
      else if algType = ''SHA512'' then ECDSAWithSHA512
      else ECDSAWithSHA256)"

definition findRsaSignALg :: "string \<Rightarrow> SignatureAlgorithm" where
  "findRsaSignALg algType =
     (if algType = ''SHA1'' then SHA1WithRSA
      else if algType = ''SHA256'' then SHA256WithRSA
      else if algType = ''SHA384'' then SHA384WithRSA
      else if algType = ''SHA512'' then SHA512WithRSA
      else SHA256WithRSA)"

fun signatureAlgorithm :: "string \<Rightarrow> PrivateKey \<Rightarrow> failure + SignatureAlgorithm" where
  "signatureAlgorithm algType (RsaPrivateKey k) = Inr (findRsaSignALg algType)"
| "signatureAlgorithm algType (EcdsaPrivateKey k) = Inr (findEcdsaSignALg algType)"
| "signatureAlgorithm algType OtherValue = Inl (Fatal ''Could not find any signature algorithm'')"

subsection \<open>crypto/sha1\<close>

text \<open>
  \<open>keyIdentifier\<close> hashes with \<open>crypto/sha1\<close> of the Go standard library. The hash is
  modelled after the algorithm that library implements (FIPS 180-4, SHA-1): the message is
  followed by the byte \<open>0x80\<close>, zero bytes up to 56 modulo 64 and the bit length as 8
  big-endian bytes; each 64-byte block runs 80 rounds over five 32-bit words; the digest
  is the five words in big-endian order.
\<close>

definition be_bytes32 :: "32 word \<Rightarrow> byte list" where
  "be_bytes32 w = [ucast (drop_bit 24 w), ucast (drop_bit 16 w), ucast (drop_bit 8 w), ucast w]"

definition be_bytes64 :: "64 word \<Rightarrow> byte list" where
  "be_bytes64 w = map (\<lambda>i. ucast (drop_bit (56 - 8 * i) w)) [0..<8]"

fun be_word32 :: "byte list \<Rightarrow> 32 word" where
  "be_word32 [] = 0"
| "be_word32 (b # bs) = push_bit (8 * length bs) (ucast b) OR be_word32 bs"

fun chunks :: "nat \<Rightarrow> 'a list \<Rightarrow> 'a list list" where
  "chunks n xs = (if n = 0 \<or> xs = [] then [] else take n xs # chunks n (drop n xs))"

declare chunks.simps [simp del]

definition sha1_padding :: "nat \<Rightarrow> byte list" where
  "sha1_padding len =
     (let r = len mod 64;
          padlen = (if r < 56 then 56 - r else 64 + 56 - r)
      in 0x80 # replicate (padlen - 1) 0 @ be_bytes64 (push_bit 3 (word_of_nat len)))"

definition sha1_f :: "nat \<Rightarrow> 32 word \<Rightarrow> 32 word \<Rightarrow> 32 word \<Rightarrow> 32 word" where
  "sha1_f i b c d =
     (if i < 20 then (b AND c) OR (NOT b AND d)
      else if i < 40 then b XOR c XOR d
      else if i < 60 then ((b OR c) AND d) OR (b AND c)
      else b XOR c XOR d)"

definition sha1_K :: "nat \<Rightarrow> 32 word" where
  "sha1_K i =
     (if i < 20 then 0x5A827999
      else if i < 40 then 0x6ED9EBA1
      else if i < 60 then 0x8F1BBCDC
      else 0xCA62C1D6)"

fun sha1_schedule :: "nat \<Rightarrow> 32 word list \<Rightarrow> 32 word list" where
  "sha1_schedule 0 w = w"
| "sha1_schedule (Suc n) w =
     (let i = length w
      in sha1_schedule n
           (w @ [word_rotl 1 (w ! (i - 3) XOR w ! (i - 8) XOR w ! (i - 14) XOR w ! (i - 16))]))"

type_synonym sha1_state = "32 word \<times> 32 word \<times> 32 word \<times> 32 word \<times> 32 word"

definition sha1_round :: "sha1_state \<Rightarrow> nat \<times> 32 word \<Rightarrow> sha1_state" where
  "sha1_round s iw =
     (case s of (a, b, c, d, e) \<Rightarrow> case iw of (i, wi) \<Rightarrow>
        (word_rotl 5 a + sha1_f i b c d + e + wi + sha1_K i, a, word_rotl 30 b, c, d))"

definition sha1_block :: "sha1_state \<Rightarrow> byte list \<Rightarrow> sha1_state" where
  "sha1_block h p =
     (let w = sha1_schedule 64 (map be_word32 (chunks 4 p))
      in case h of (h0, h1, h2, h3, h4) \<Rightarrow>
         case foldl sha1_round h (zip [0..<80] w) of (a, b, c, d, e) \<Rightarrow>
           (h0 + a, h1 + b, h2 + c, h3 + d, h4 + e))"

definition sha1_init :: sha1_state where
  "sha1_init = (0x67452301, 0xEFCDAB89, 0x98BADCFE, 0x10325476, 0xC3D2E1F0)"

text \<open>\<open>h := sha1.New(); h.Write(msg); h.Sum(nil)\<close>\<close>

definition sha1_Sum :: "byte list \<Rightarrow> byte list" where
  "sha1_Sum msg =
     (case foldl sha1_block sha1_init (chunks 64 (msg @ sha1_padding (length msg))) of
        (h0, h1, h2, h3, h4) \<Rightarrow>
          be_bytes32 h0 @ be_bytes32 h1 @ be_bytes32 h2 @ be_bytes32 h3 @ be_bytes32 h4)"

subsection \<open>The key package and keyIdentifier\<close>

text \<open>
  The two functions of the package \<open>key\<close> that this file calls. Their code is not part
  of the file, so they are parameters: \<open>PublicKey\<close> gives the public key of a private
  key, \<open>PublicKeyBitArray\<close> returns the bytes of a public key together with an error
  (\<open>None\<close> for \<open>nil\<close>).
\<close>

record 'pub key_pkg =
  PublicKey :: "PrivateKey \<Rightarrow> 'pub"
  PublicKeyBitArray :: "'pub \<Rightarrow> byte list \<times> go_error option"

text \<open>The error of \<open>PublicKeyBitArray\<close> is discarded (\<open>pbyte, _ := ...\<close>).\<close>

definition keyIdentifier :: "'pub key_pkg \<Rightarrow> 'pub \<Rightarrow> byte list" where
  "keyIdentifier kp pub = (case PublicKeyBitArray kp pub of (pbyte, _) \<Rightarrow> sha1_Sum pbyte)"

subsection \<open>The descriptor and the template\<close>

type_synonym Time = int

record Certificate =
  Id :: string
  Country :: string
  Organization :: string
  OrganizationalUnit :: string
  CommonName :: string
  AlternativeNames :: "string list"
  Usage :: "string list"
  CA :: bool
  PrivateKey :: PrivateKey
  SignatureAlg :: string
  ValidFrom :: Time
  ValidTo :: Time

text \<open>
  \<open>pkix.Name\<close> and \<open>x509.Certificate\<close>, with the fields the code sets. A field the
  code leaves out of the struct literal has Go's zero value: the empty string for
  \<open>CommonName\<close>, \<open>nil\<close> (the empty list) for \<open>DNSNames\<close>.
\<close>

record pkix_Name =
  Name_Country :: "string list"
  Name_Organization :: "string list"
  Name_OrganizationalUnit :: "string list"
  Name_CommonName :: string

record x509_Certificate =
  SerialNumber :: int
  Subject :: pkix_Name
  NotBefore :: Time
  NotAfter :: Time
  SubjectKeyId :: "byte list"
  BasicConstraintsValid :: bool
  SignatureAlgorithm :: SignatureAlgorithm
  IsCA :: bool
  ExtKeyUsage :: "ExtKeyUsage list"
  KeyUsage :: KeyUsage
  DNSNames :: "string list"

text \<open>\<open>[]byte(s)\<close>: the bytes of a string.\<close>

definition string_bytes :: "string \<Rightarrow> byte list" where
  "string_bytes s = map (\<lambda>c. word_of_nat (of_char c)) s"

text \<open>
  \<open>new(big.Int).SetBytes(buf)\<close>: \<open>buf\<close> read as a big-endian unsigned integer, one
  byte after the other.
\<close>

definition SetBytes :: "byte list \<Rightarrow> int" where
  "SetBytes buf = foldl (\<lambda>acc b. acc * 256 + uint b) 0 buf"

fun isStringInList :: "string \<Rightarrow> string list \<Rightarrow> bool" where
  "isStringInList val [] = False"
| "isStringInList val (v # rest) = (if v = val then True else isStringInList val rest)"

definition CreateCertificateTemplate :: "'pub key_pkg \<Rightarrow> Certificate \<Rightarrow> failure + x509_Certificate" where
  "CreateCertificateTemplate kp data =
     (let pub = PublicKey kp (PrivateKey data);
          subjectKeyId = keyIdentifier kp pub
      in case getUsage (Usage data) (CA data) of (keyUsage, extKeyUsage) \<Rightarrow>
        (case signatureAlgorithm (SignatureAlg data) (PrivateKey data) of
           Inl f \<Rightarrow> Inl f
         | Inr alg \<Rightarrow>
             (let cert0 = \<lparr>
                    SerialNumber = SetBytes (string_bytes (Id data)),
                    Subject = \<lparr>
                      Name_Country = [Country data],
                      Name_Organization = [Organization data],
                      Name_OrganizationalUnit = [OrganizationalUnit data],
                      Name_CommonName = ''''\<rparr>,
                    NotBefore = ValidFrom data,
                    NotAfter = ValidTo data,
                    SubjectKeyId = subjectKeyId,
                    BasicConstraintsValid = True,
                    SignatureAlgorithm = alg,
                    IsCA = CA data,
                    ExtKeyUsage = extKeyUsage,
                    KeyUsage = keyUsage,
                    DNSNames = []\<rparr>;
                  cert1 = (if CommonName data \<noteq> ''''
                           then cert0\<lparr>Subject := (Subject cert0)\<lparr>Name_CommonName := CommonName data\<rparr>\<rparr>
                           else cert0);
                  cert2 = (if length (AlternativeNames data) > 0
                           then (let c = cert1\<lparr>DNSNames := AlternativeNames data\<rparr>
                                 in if \<not> isStringInList (CommonName data) (AlternativeNames data)
                                    then c\<lparr>DNSNames := DNSNames c @ [CommonName data]\<rparr>
                                    else c)
                           else cert1)
              in Inr cert2)))"

subsection \<open>CheckCertificate\<close>

text \<open>
  The functions of \<open>crypto/x509\<close> that \<open>CheckCertificate\<close> calls are parameters.
  \<open>ParseCertificate\<close> and \<open>ParseCertificates\<close> return \<open>None\<close> where Go returns
  \<open>(nil, err)\<close>; \<open>Verify\<close> returns the error, \<open>None\<close> for \<open>nil\<close>. A
  \<open>CertPool\<close> is the set of the certificates added to it.
\<close>

record 'c VerifyOptions =
  DNSName :: string
  Roots :: "'c set"
  Intermediates :: "'c set"

record 'c x509_pkg =
  ParseCertificate :: "byte list \<Rightarrow> 'c option"
  ParseCertificates :: "byte list \<Rightarrow> 'c list option"
  Verify :: "'c \<Rightarrow> 'c VerifyOptions \<Rightarrow> go_error option"

definition NewCertPool :: "'c set" where
  "NewCertPool = {}"

text \<open>\<open>CertPool.AddCert\<close> panics on a \<open>nil\<close> certificate.\<close>

fun AddCert :: "'c set \<Rightarrow> 'c option \<Rightarrow> failure + 'c set" where
  "AddCert pool None = Inl (Panic ''adding nil Certificate to CertPool'')"
| "AddCert pool (Some cert) = Inr (insert cert pool)"

text \<open>
  The errors of the three parse calls are discarded. After a failed
  \<open>ParseCertificates\<close> the loop runs over \<open>nil\<close>, so the pool stays empty. After a
  failed \<open>ParseCertificate(clientBytes)\<close> the pointer \<open>clientCert\<close> is \<open>nil\<close>:
  \<open>clientCert.Verify\<close> reads a field of its receiver, and the error branch reads
  \<open>clientCert.Subject.CommonName\<close>, so the call ends in a nil-pointer panic.
\<close>

definition CheckCertificate ::
  "'c x509_pkg \<Rightarrow> string \<Rightarrow> byte list \<Rightarrow> byte list \<Rightarrow> byte list \<Rightarrow> failure + bool" where
  "CheckCertificate x dnsName caBytes interCaBytes clientBytes =
     (let rootCert = ParseCertificate x caBytes
      in case AddCert NewCertPool rootCert of
           Inl p \<Rightarrow> Inl p
         | Inr rootPool \<Rightarrow>
             (let interCerts = (case ParseCertificates x interCaBytes of None \<Rightarrow> [] | Some cs \<Rightarrow> cs);
                  interCaPool = foldl (\<lambda>pool cert. insert cert pool) NewCertPool interCerts;
                  opts = \<lparr>DNSName = dnsName, Roots = rootPool, Intermediates = interCaPool\<rparr>
              in case ParseCertificate x clientBytes of
                   None \<Rightarrow> Inl (Panic ''invalid memory address or nil pointer dereference'')
                 | Some clientCert \<Rightarrow>
                     (case Verify x clientCert opts of
                        Some certErr \<Rightarrow> Inr False
                      | None \<Rightarrow> Inr True)))"

section \<open>Notions of the specification\<close>

subsection \<open>Usage tokens\<close>

text \<open>
  The specification lists the recognised tokens: five stand for a key-usage bit, two for
  an extended-usage entry. The result it describes is the disjunction of the bits of the
  bit tokens, and one extended-usage entry for each occurrence of the two others, in the
  order of the input.
\<close>

definition usage_tokens :: "string list" where
  "usage_tokens = [''crlsign'', ''certsign'', ''encipherment'', ''signature'',
     ''contentcommitment'', ''clientauth'', ''serverauth'']"

definition recognized :: "string \<Rightarrow> bool" where
  "recognized tok = (tok \<in> set usage_tokens)"

definition token_bit :: "string \<Rightarrow> KeyUsage option" where
  "token_bit tok =
     (if tok = ''crlsign'' then Some KeyUsageCRLSign
      else if tok = ''certsign'' then Some KeyUsageCertSign
      else if tok = ''encipherment'' then Some KeyUsageKeyEncipherment
      else if tok = ''signature'' then Some KeyUsageDigitalSignature
      else if tok = ''contentcommitment'' then Some KeyUsageContentCommitment
      else None)"

definition token_ext :: "string \<Rightarrow> ExtKeyUsage option" where
  "token_ext tok =
     (if tok = ''clientauth'' then Some ExtKeyUsageClientAuth
      else if tok = ''serverauth'' then Some ExtKeyUsageServerAuth
      else None)"

definition spec_key_bits :: "string list \<Rightarrow> KeyUsage" where
  "spec_key_bits tokens = foldr (OR) (List.map_filter token_bit tokens) 0"

definition spec_ext_usage :: "string list \<Rightarrow> ExtKeyUsage list" where
  "spec_ext_usage tokens = List.map_filter token_ext tokens"

subsection \<open>Key families\<close>

text \<open>
  The public-key algorithm a signature algorithm belongs to, as \<open>crypto/x509\<close> assigns
  it, and the kind of a private key.
\<close>

datatype PublicKeyAlgorithm = UnknownPublicKeyAlgorithm | RSA | DSA | ECDSA | Ed25519

fun algorithm_family :: "SignatureAlgorithm \<Rightarrow> PublicKeyAlgorithm" where
  "algorithm_family UnknownSignatureAlgorithm = UnknownPublicKeyAlgorithm"
| "algorithm_family MD2WithRSA = RSA"
| "algorithm_family MD5WithRSA = RSA"
| "algorithm_family SHA1WithRSA = RSA"
| "algorithm_family SHA256WithRSA = RSA"
| "algorithm_family SHA384WithRSA = RSA"
| "algorithm_family SHA512WithRSA = RSA"
| "algorithm_family DSAWithSHA1 = DSA"
| "algorithm_family DSAWithSHA256 = DSA"
| "algorithm_family ECDSAWithSHA1 = ECDSA"
| "algorithm_family ECDSAWithSHA256 = ECDSA"
| "algorithm_family ECDSAWithSHA384 = ECDSA"
| "algorithm_family ECDSAWithSHA512 = ECDSA"
| "algorithm_family SHA256WithRSAPSS = RSA"
| "algorithm_family SHA384WithRSAPSS = RSA"
| "algorithm_family SHA512WithRSAPSS = RSA"
| "algorithm_family PureEd25519 = Ed25519"

fun key_kind :: "PrivateKey \<Rightarrow> PublicKeyAlgorithm" where
  "key_kind (RsaPrivateKey k) = RSA"
| "key_kind (EcdsaPrivateKey k) = ECDSA"
| "key_kind OtherValue = UnknownPublicKeyAlgorithm"

text \<open>
  The selection as the specification words it: a token other than the four hash names
  counts as \<open>SHA256\<close>, and the family's algorithm for that hash is chosen.
\<close>

definition spec_selectAlgorithm :: "string \<Rightarrow> PublicKeyAlgorithm \<Rightarrow> SignatureAlgorithm" where
  "spec_selectAlgorithm hashToken keyKind =
     (let h = (if hashToken \<in> {''SHA1'', ''SHA256'', ''SHA384'', ''SHA512''} then hashToken else ''SHA256'')
      in if keyKind = RSA then
           (if h = ''SHA1'' then SHA1WithRSA else if h = ''SHA384'' then SHA384WithRSA
            else if h = ''SHA512'' then SHA512WithRSA else SHA256WithRSA)
         else if keyKind = ECDSA then
           (if h = ''SHA1'' then ECDSAWithSHA1 else if h = ''SHA384'' then ECDSAWithSHA384
            else if h = ''SHA512'' then ECDSAWithSHA512 else ECDSAWithSHA256)
         else UnknownSignatureAlgorithm)"

subsection \<open>Serial numbers and subject attributes\<close>

text \<open>The value of a byte string read as a big-endian number, digit by digit.\<close>

definition big_endian :: "byte list \<Rightarrow> int" where
  "big_endian buf = (\<Sum>i<length buf. uint (buf ! i) * 256 ^ (length buf - 1 - i))"

definition leading_zero :: "string \<Rightarrow> bool" where
  "leading_zero s = (case s of [] \<Rightarrow> False | c # _ \<Rightarrow> c = CHR 0x00)"

text \<open>
  A \<open>pkix.Name\<close> carries a common-name attribute when its \<open>CommonName\<close> field is not
  the empty string: the encoding of a name emits the attribute under that condition only.
  The list-valued fields are emitted whenever the list is not empty.
\<close>

definition has_CommonName :: "pkix_Name \<Rightarrow> bool" where
  "has_CommonName n = (Name_CommonName n \<noteq> '''')"

subsection \<open>Instances of the parameters\<close>

text \<open>
  Small instances of the parameters, on which the model is evaluated. In
  \<open>example_key_pkg\<close> the public key of a private key is its key material and the bytes
  of a public key are the key itself. In \<open>example_x509_pkg\<close> a certificate is its own
  encoding, which parses when it begins with the tag \<open>0x30\<close> of an ASN.1 sequence (the
  empty input holds no certificate), and a certificate verifies when it is one of the
  roots.
\<close>

definition example_key_pkg :: "byte list key_pkg" where
  "example_key_pkg = \<lparr>
     PublicKey = (\<lambda>k. case k of RsaPrivateKey m \<Rightarrow> m | EcdsaPrivateKey m \<Rightarrow> m | OtherValue \<Rightarrow> []),
     PublicKeyBitArray = (\<lambda>pub. (pub, None))\<rparr>"

definition example_descriptor :: "string \<Rightarrow> string \<Rightarrow> string list \<Rightarrow> Certificate" where
  "example_descriptor ident cn sans = \<lparr>
     Id = ident, Country = '''', Organization = ''Acme'', OrganizationalUnit = '''',
     CommonName = cn, AlternativeNames = sans, Usage = [], CA = False,
     PrivateKey = RsaPrivateKey [1, 2, 3], SignatureAlg = ''SHA256'',
     ValidFrom = 0, ValidTo = 1\<rparr>"

definition example_x509_pkg :: "byte list x509_pkg" where
  "example_x509_pkg = \<lparr>
     ParseCertificate =
       (\<lambda>der. case der of [] \<Rightarrow> None | t # _ \<Rightarrow> if t = 0x30 then Some der else None),
     ParseCertificates =
       (\<lambda>der. case der of [] \<Rightarrow> Some [] | t # _ \<Rightarrow> if t = 0x30 then Some [der] else None),
     Verify =
       (\<lambda>c opts. if c \<in> Roots opts then None
                  else Some ''x509: certificate signed by unknown authority'')\<rparr>"

section \<open>Properties\<close>

subsection \<open>getUsage\<close>

lemma bit_one_shifted: "bit (push_bit m (1::int)) n \<longleftrightarrow> n = m"
  by (auto simp add: bit_exp_iff)

lemma bit_KeyUsage:
  "bit KeyUsageDigitalSignature n \<longleftrightarrow> n = 0"
  "bit KeyUsageContentCommitment n \<longleftrightarrow> n = 1"
  "bit KeyUsageKeyEncipherment n \<longleftrightarrow> n = 2"
  "bit KeyUsageCertSign n \<longleftrightarrow> n = 5"
  "bit KeyUsageCRLSign n \<longleftrightarrow> n = 6"
  unfolding KeyUsage_defs bit_one_shifted by simp_all

text \<open>
  Claim C5. On an empty token list \<open>getUsage\<close> returns exactly the key-usage bits
  CertSign and CRLSign (bits 5 and 6) with an empty extended-usage list when the
  descriptor is a CA, and exactly KeyEncipherment and DigitalSignature (bits 2 and 0) with
  the extended-usage list ClientAuth, ServerAuth when it is not.
\<close>

theorem getUsage_defaults:
  "getUsage [] True = (KeyUsageCertSign OR KeyUsageCRLSign, [])
   \<and> {n. bit (fst (getUsage [] True)) n} = {5, 6}
   \<and> getUsage [] False =
       (KeyUsageKeyEncipherment OR KeyUsageDigitalSignature, [ExtKeyUsageClientAuth, ExtKeyUsageServerAuth])
   \<and> {n. bit (fst (getUsage [] False)) n} = {0, 2}"
proof -
  have "getUsage [] True = (KeyUsageCertSign OR KeyUsageCRLSign, [])"
    by (simp add: getUsage_def getDefaultKeyUsage_def getDefaultExtKeyUsage_def ac_simps)
  moreover have "{n. bit (fst (getUsage [] True)) n} = {5, 6}"
    by (auto simp add: getUsage_def getDefaultKeyUsage_def bit_or_iff bit_KeyUsage)
  moreover have "getUsage [] False =
       (KeyUsageKeyEncipherment OR KeyUsageDigitalSignature, [ExtKeyUsageClientAuth, ExtKeyUsageServerAuth])"
    by (simp add: getUsage_def getDefaultKeyUsage_def getDefaultExtKeyUsage_def)
  moreover have "{n. bit (fst (getUsage [] False)) n} = {0, 2}"
    by (auto simp add: getUsage_def getDefaultKeyUsage_def bit_or_iff bit_KeyUsage)
  ultimately show ?thesis by blast
qed

text \<open>
  The loop against the specification's description: the accumulators grow by the
  disjunction of the bit tokens' bits and by the extended-usage entries in input order.
\<close>

lemma usage_step_spec:
  "usage_step tok (ku, eku) =
     (case token_bit tok of Some b \<Rightarrow> ku OR b | None \<Rightarrow> ku,
      case token_ext tok of Some e \<Rightarrow> eku @ [e] | None \<Rightarrow> eku)"
  by (simp add: usage_step_def token_bit_def token_ext_def)

lemma usage_loop_spec:
  "usage_loop tokens (ku, eku) = (ku OR spec_key_bits tokens, eku @ spec_ext_usage tokens)"
proof (induction tokens arbitrary: ku eku)
  case Nil
  then show ?case by (simp add: spec_key_bits_def spec_ext_usage_def List.map_filter_simps)
next
  case (Cons tok rest)
  show ?case
    by (cases "token_bit tok"; cases "token_ext tok")
       (simp_all add: usage_step_spec Cons.IH spec_key_bits_def spec_ext_usage_def
          List.map_filter_simps ac_simps)
qed

lemma spec_key_bits_bit:
  "bit (spec_key_bits tokens) n \<longleftrightarrow> (\<exists>tok \<in> set tokens. \<exists>b. token_bit tok = Some b \<and> bit b n)"
  by (induction tokens)
     (auto simp add: spec_key_bits_def List.map_filter_simps bit_or_iff split: option.splits)

lemma spec_ext_usage_length:
  "length (spec_ext_usage tokens) = length (filter (\<lambda>tok. tok = ''clientauth'' \<or> tok = ''serverauth'') tokens)"
  by (induction tokens) (simp_all add: spec_ext_usage_def List.map_filter_simps token_ext_def)

text \<open>
  Claim C6. For every non-empty token list \<open>getUsage\<close> returns the disjunction of the
  key-usage bits of the recognised bit tokens, and the extended-usage list with one entry
  for each occurrence of \<open>clientauth\<close> or \<open>serverauth\<close>, in the order of the input,
  duplicates kept; a token that is not recognised contributes nothing, and the function
  has no failure.
\<close>

theorem getUsage_tokens:
  assumes "usage \<noteq> []"
  shows "getUsage usage ca = (spec_key_bits usage, spec_ext_usage usage)"
  using assms by (simp add: getUsage_def usage_loop_spec)

theorem getUsage_tokens_witness:
  "getUsage [''clientauth'', ''foo'', ''serverauth'', ''clientauth'', ''crlsign'', ''signature'', ''crlsign''] True
     = (KeyUsageCRLSign OR KeyUsageDigitalSignature,
        [ExtKeyUsageClientAuth, ExtKeyUsageServerAuth, ExtKeyUsageClientAuth])"
  using getUsage_tokens [of "[''clientauth'', ''foo'', ''serverauth'', ''clientauth'', ''crlsign'', ''signature'', ''crlsign'']" True]
  by (simp add: spec_key_bits_def spec_ext_usage_def List.map_filter_simps token_bit_def token_ext_def
      KeyUsage_defs)

lemma usage_step_unrecognized: "\<not> recognized tok \<Longrightarrow> usage_step tok acc = acc"
  by (cases acc) (simp add: recognized_def usage_tokens_def usage_step_def)

lemma usage_loop_unrecognized:
  "\<forall>tok \<in> set tokens. \<not> recognized tok \<Longrightarrow> usage_loop tokens acc = acc"
  by (induction tokens arbitrary: acc) (simp_all add: usage_step_unrecognized)

text \<open>
  Claim C10. For every non-empty token list in which no token is recognised,
  \<open>getUsage\<close> returns the zero key-usage bit set and an empty extended-usage list: the
  defaults are applied only when the list is empty.
\<close>

theorem getUsage_unrecognized:
  assumes "usage \<noteq> []" and "\<forall>tok \<in> set usage. \<not> recognized tok"
  shows "getUsage usage ca = (0, [])"
  using assms by (simp add: getUsage_def usage_loop_unrecognized)

theorem getUsage_unrecognized_witness:
  "getUsage [''foo'', ''CertSign'', ''''] True = (0, [])
   \<and> getUsage [''foo'', ''CertSign'', ''''] False = (0, [])"
proof -
  have ne: "[''foo'', ''CertSign'', ''''] \<noteq> ([] :: string list)" by simp
  have un: "\<forall>tok \<in> set [''foo'', ''CertSign'', '''']. \<not> recognized tok"
    by (simp add: recognized_def usage_tokens_def)
  from getUsage_unrecognized [OF ne un] show ?thesis by simp
qed

subsection \<open>signatureAlgorithm\<close>

text \<open>
  Claim C4. For an RSA or an ECDSA key and every hash token, \<open>signatureAlgorithm\<close>
  returns a signature algorithm of the key's family: the family's algorithm for
  \<open>SHA1\<close>, \<open>SHA256\<close>, \<open>SHA384\<close> or \<open>SHA512\<close>, and the family's SHA-256
  algorithm for every other token, the empty one included.
\<close>

theorem signatureAlgorithm_family:
  assumes "key_kind k = RSA \<or> key_kind k = ECDSA"
  shows "\<exists>alg. signatureAlgorithm algType k = Inr alg
           \<and> algorithm_family alg = key_kind k
           \<and> alg = spec_selectAlgorithm algType (key_kind k)"
  using assms
  by (cases k) (simp_all add: findRsaSignALg_def findEcdsaSignALg_def spec_selectAlgorithm_def)

theorem signatureAlgorithm_family_witness:
  "signatureAlgorithm ''SHA1'' (RsaPrivateKey [1]) = Inr SHA1WithRSA
 \<and> signatureAlgorithm ''SHA256'' (RsaPrivateKey [1]) = Inr SHA256WithRSA
 \<and> signatureAlgorithm ''SHA384'' (RsaPrivateKey [1]) = Inr SHA384WithRSA
 \<and> signatureAlgorithm ''SHA512'' (RsaPrivateKey [1]) = Inr SHA512WithRSA
 \<and> signatureAlgorithm '''' (RsaPrivateKey [1]) = Inr SHA256WithRSA
 \<and> signatureAlgorithm ''unknown'' (RsaPrivateKey [1]) = Inr SHA256WithRSA
 \<and> signatureAlgorithm ''SHA1'' (EcdsaPrivateKey [1]) = Inr ECDSAWithSHA1
 \<and> signatureAlgorithm ''SHA256'' (EcdsaPrivateKey [1]) = Inr ECDSAWithSHA256
 \<and> signatureAlgorithm ''SHA384'' (EcdsaPrivateKey [1]) = Inr ECDSAWithSHA384
 \<and> signatureAlgorithm ''SHA512'' (EcdsaPrivateKey [1]) = Inr ECDSAWithSHA512
 \<and> signatureAlgorithm '''' (EcdsaPrivateKey [1]) = Inr ECDSAWithSHA256
 \<and> signatureAlgorithm ''unknown'' (EcdsaPrivateKey [1]) = Inr ECDSAWithSHA256"
proof -
  have r: "key_kind (RsaPrivateKey [1]) = RSA \<or> key_kind (RsaPrivateKey [1]) = ECDSA" by simp
  have e: "key_kind (EcdsaPrivateKey [1]) = RSA \<or> key_kind (EcdsaPrivateKey [1]) = ECDSA" by simp
  note R = signatureAlgorithm_family [OF r]
  note E = signatureAlgorithm_family [OF e]
  from R [of "''SHA1''"] R [of "''SHA256''"] R [of "''SHA384''"] R [of "''SHA512''"]
       R [of "''''"] R [of "''unknown''"]
       E [of "''SHA1''"] E [of "''SHA256''"] E [of "''SHA384''"] E [of "''SHA512''"]
       E [of "''''"] E [of "''unknown''"]
  show ?thesis by (simp add: spec_selectAlgorithm_def)
qed

subsection \<open>keyIdentifier\<close>

text \<open>The padded message is a whole number of 64-byte blocks.\<close>

lemma sha1_padding_length:
  "length (sha1_padding len) = (if len mod 64 < 56 then 64 - len mod 64 else 128 - len mod 64)"
  by (simp add: sha1_padding_def be_bytes64_def Let_def)

lemma sha1_padded_blocks: "length (msg @ sha1_padding (length msg)) mod 64 = 0"
proof -
  have "(n + (if n mod 64 < 56 then 64 - n mod 64 else 128 - n mod 64)) mod 64 = 0" for n :: nat
    by presburger
  from this [of "length msg"] show ?thesis
    by (simp only: length_append sha1_padding_length)
qed

lemma sha1_Sum_length: "length (sha1_Sum msg) = 20"
  by (simp add: sha1_Sum_def be_bytes32_def split: prod.splits)

text \<open>
  Claim C8. \<open>keyIdentifier\<close> is a function of the bytes \<open>PublicKeyBitArray\<close> returns
  for the public key (their SHA-1 digest), so two calls on the same key give the same
  bytes, and the result always has exactly 20 bytes.
\<close>

theorem keyIdentifier_sha1_20:
  "length (keyIdentifier kp pub) = 20
   \<and> keyIdentifier kp pub = sha1_Sum (fst (PublicKeyBitArray kp pub))"
  by (simp add: keyIdentifier_def sha1_Sum_length split: prod.splits)

subsection \<open>CreateCertificateTemplate\<close>

lemma isStringInList_set: "isStringInList val xs \<longleftrightarrow> val \<in> set xs"
  by (induction xs) auto

text \<open>
  A template is built exactly for the keys \<open>signatureAlgorithm\<close> accepts; for any other
  value in \<open>PrivateKey\<close> the call ends in \<open>log.Fatal\<close>.
\<close>

lemma CreateCertificateTemplate_total:
  assumes "PrivateKey d \<noteq> OtherValue"
  shows "\<exists>t. CreateCertificateTemplate kp d = Inr t"
  using assms
  by (cases "PrivateKey d") (simp_all add: CreateCertificateTemplate_def Let_def split: prod.splits)

lemma CreateCertificateTemplate_Fatal:
  assumes "PrivateKey d = OtherValue"
  shows "\<exists>msg. CreateCertificateTemplate kp d = Inl (Fatal msg)"
  using assms
  by (simp add: CreateCertificateTemplate_def Let_def split: prod.splits)

lemma CreateCertificateTemplate_Subject:
  assumes "CreateCertificateTemplate kp d = Inr t"
  shows "Subject t = \<lparr>Name_Country = [Country d], Name_Organization = [Organization d],
           Name_OrganizationalUnit = [OrganizationalUnit d], Name_CommonName = CommonName d\<rparr>"
  using assms
  by (auto simp add: CreateCertificateTemplate_def Let_def split: prod.splits sum.splits if_splits)

lemma CreateCertificateTemplate_DNSNames:
  assumes "CreateCertificateTemplate kp d = Inr t"
  shows "DNSNames t =
           (if AlternativeNames d = [] then []
            else if CommonName d \<in> set (AlternativeNames d) then AlternativeNames d
            else AlternativeNames d @ [CommonName d])"
  using assms
  by (auto simp add: CreateCertificateTemplate_def Let_def isStringInList_set
      split: prod.splits sum.splits if_splits)

lemma CreateCertificateTemplate_SerialNumber:
  assumes "CreateCertificateTemplate kp d = Inr t"
  shows "SerialNumber t = SetBytes (string_bytes (Id d))"
  using assms
  by (auto simp add: CreateCertificateTemplate_def Let_def split: prod.splits sum.splits if_splits)

lemma CreateCertificateTemplate_constraints:
  assumes "CreateCertificateTemplate kp d = Inr t"
  shows "BasicConstraintsValid t \<and> IsCA t = CA d
       \<and> NotBefore t = ValidFrom d \<and> NotAfter t = ValidTo d
       \<and> (KeyUsage t, ExtKeyUsage t) = getUsage (Usage d) (CA d)
       \<and> SubjectKeyId t = keyIdentifier kp (PublicKey kp (PrivateKey d))"
  using assms
  by (auto simp add: CreateCertificateTemplate_def Let_def split: prod.splits sum.splits if_splits)

lemma example_builds:
  "\<exists>t. CreateCertificateTemplate example_key_pkg (example_descriptor i c s) = Inr t"
  by (rule CreateCertificateTemplate_total) (simp add: example_descriptor_def)

text \<open>
  Claim C1 (the code departs from it). With a non-empty \<open>AlternativeNames\<close> the common
  name is appended whenever it is not an element of the list; the code has no test for an
  empty common name on this path. So a descriptor with an empty \<open>CommonName\<close> and
  alternative names that do not contain the empty string gets the empty string as an
  additional DNS name, where the claim says the list equals \<open>AlternativeNames\<close>.
\<close>

theorem dns_names_empty_common_name:
  assumes "CreateCertificateTemplate kp d = Inr t"
    and "CommonName d = ''''" and "AlternativeNames d \<noteq> []"
    and "'''' \<notin> set (AlternativeNames d)"
  shows "DNSNames t = AlternativeNames d @ ['''']"
  using assms by (simp add: CreateCertificateTemplate_DNSNames)

theorem dns_names_empty_common_name_witness:
  "map_sum id DNSNames
     (CreateCertificateTemplate example_key_pkg (example_descriptor ''A'' '''' [''b.com'']))
   = Inr [''b.com'', '''']"
proof -
  obtain t where t:
    "CreateCertificateTemplate example_key_pkg (example_descriptor ''A'' '''' [''b.com'']) = Inr t"
    using example_builds by blast
  from dns_names_empty_common_name [OF t] have "DNSNames t = [''b.com'', '''']"
    by (simp add: example_descriptor_def)
  then show ?thesis by (simp add: t)
qed

text \<open>
  The DNS names in the cases the claim gets right: the spec's scenario with a non-empty
  common name, and no DNS names without alternative names.
\<close>

lemma dns_names_scenarios:
  "map_sum id DNSNames
     (CreateCertificateTemplate example_key_pkg (example_descriptor ''A'' ''a.com'' [''b.com'']))
   = Inr [''b.com'', ''a.com'']
   \<and> map_sum id DNSNames
     (CreateCertificateTemplate example_key_pkg (example_descriptor ''A'' ''a.com'' [''b.com'', ''a.com'']))
   = Inr [''b.com'', ''a.com'']
   \<and> map_sum id DNSNames
     (CreateCertificateTemplate example_key_pkg (example_descriptor ''A'' ''a.com'' []))
   = Inr []"
proof -
  obtain t where t:
    "CreateCertificateTemplate example_key_pkg (example_descriptor ''A'' ''a.com'' [''b.com'']) = Inr t"
    using example_builds by blast
  obtain u where u:
    "CreateCertificateTemplate example_key_pkg (example_descriptor ''A'' ''a.com'' [''b.com'', ''a.com'']) = Inr u"
    using example_builds by blast
  obtain v where v:
    "CreateCertificateTemplate example_key_pkg (example_descriptor ''A'' ''a.com'' []) = Inr v"
    using example_builds by blast
  have "DNSNames t = [''b.com'', ''a.com'']"
    using CreateCertificateTemplate_DNSNames [OF t] by (simp add: example_descriptor_def)
  moreover have "DNSNames u = [''b.com'', ''a.com'']"
    using CreateCertificateTemplate_DNSNames [OF u] by (simp add: example_descriptor_def)
  moreover have "DNSNames v = []"
    using CreateCertificateTemplate_DNSNames [OF v] by (simp add: example_descriptor_def)
  ultimately show ?thesis by (simp add: t u v)
qed

text \<open>
  Claim C9. The subject's \<open>Country\<close>, \<open>Organization\<close> and \<open>OrganizationalUnit\<close>
  are each the one-element list of the descriptor's string, also when that string is
  empty.
\<close>

theorem subject_fields_single:
  assumes "CreateCertificateTemplate kp d = Inr t"
  shows "Name_Country (Subject t) = [Country d]
       \<and> Name_Organization (Subject t) = [Organization d]
       \<and> Name_OrganizationalUnit (Subject t) = [OrganizationalUnit d]"
  by (simp add: CreateCertificateTemplate_Subject [OF assms])

theorem subject_fields_single_witness:
  "map_sum id (\<lambda>t. (Name_Country (Subject t), Name_Organization (Subject t),
                     Name_OrganizationalUnit (Subject t)))
     (CreateCertificateTemplate example_key_pkg (example_descriptor ''A'' ''a.com'' []))
   = Inr ([''''], [''Acme''], [''''])"
proof -
  obtain t where t:
    "CreateCertificateTemplate example_key_pkg (example_descriptor ''A'' ''a.com'' []) = Inr t"
    using example_builds by blast
  from subject_fields_single [OF t]
  have "Name_Country (Subject t) = [''''] \<and> Name_Organization (Subject t) = [''Acme'']
      \<and> Name_OrganizationalUnit (Subject t) = ['''']"
    by (simp add: example_descriptor_def)
  then show ?thesis by (simp add: t)
qed

text \<open>
  Claim C7. The subject carries a common-name attribute exactly when the descriptor's
  \<open>CommonName\<close> is not empty, and the attribute then equals it; with an empty
  \<open>CommonName\<close> the field keeps its zero value, which stands for an absent attribute.
\<close>

theorem subject_common_name:
  assumes "CreateCertificateTemplate kp d = Inr t"
  shows "(has_CommonName (Subject t) \<longleftrightarrow> CommonName d \<noteq> '''')
       \<and> Name_CommonName (Subject t) = CommonName d"
  by (simp add: CreateCertificateTemplate_Subject [OF assms] has_CommonName_def)

theorem subject_common_name_witness:
  "map_sum id (\<lambda>t. (has_CommonName (Subject t), Name_CommonName (Subject t)))
     (CreateCertificateTemplate example_key_pkg (example_descriptor ''A'' ''a.com'' []))
   = Inr (True, ''a.com'')
   \<and> map_sum id (\<lambda>t. has_CommonName (Subject t))
     (CreateCertificateTemplate example_key_pkg (example_descriptor ''A'' '''' []))
   = Inr False"
proof -
  obtain t where t:
    "CreateCertificateTemplate example_key_pkg (example_descriptor ''A'' ''a.com'' []) = Inr t"
    using example_builds by blast
  obtain u where u:
    "CreateCertificateTemplate example_key_pkg (example_descriptor ''A'' '''' []) = Inr u"
    using example_builds by blast
  from subject_common_name [OF t]
  have "has_CommonName (Subject t) \<and> Name_CommonName (Subject t) = ''a.com''"
    by (simp add: example_descriptor_def)
  moreover from subject_common_name [OF u]
  have "\<not> has_CommonName (Subject u)"
    by (simp add: example_descriptor_def)
  ultimately show ?thesis by (simp add: t u)
qed

subsection \<open>The serial number\<close>

lemma unat_byte_of_char: "unat (word_of_nat (of_char c) :: byte) = of_char c"
  by (simp add: unat_of_nat)

lemma byte_of_char_zero: "(word_of_nat (of_char c) :: byte) = 0 \<longleftrightarrow> c = CHR 0x00"
proof -
  have "(word_of_nat (of_char c) :: byte) = 0 \<longleftrightarrow> unat (word_of_nat (of_char c) :: byte) = 0"
    by (simp only: unat_eq_0)
  also have "\<dots> \<longleftrightarrow> (of_char c :: nat) = of_char (CHR 0x00)"
    by (simp only: unat_byte_of_char) simp
  also have "\<dots> \<longleftrightarrow> c = CHR 0x00"
    by (simp only: of_char_eq_iff)
  finally show ?thesis .
qed

lemma SetBytes_Nil: "SetBytes [] = 0"
  by (simp add: SetBytes_def)

text \<open>The first byte is the most significant digit.\<close>

lemma SetBytes_Cons: "SetBytes (b # bs) = uint b * 256 ^ length bs + SetBytes bs"
proof -
  define f :: "int \<Rightarrow> byte \<Rightarrow> int" where "f = (\<lambda>acc b. acc * 256 + uint b)"
  have shift: "foldl f a xs = a * 256 ^ length xs + foldl f 0 xs" for a xs
  proof (induction xs arbitrary: a)
    case Nil
    show ?case by simp
  next
    case (Cons x xs)
    have "foldl f a (x # xs) = foldl f (f a x) xs" by simp
    also have "\<dots> = f a x * 256 ^ length xs + foldl f 0 xs" by (rule Cons.IH)
    also have "f a x = a * 256 + f 0 x" by (simp add: f_def)
    also have "(a * 256 + f 0 x) * 256 ^ length xs + foldl f 0 xs
                 = a * 256 ^ length (x # xs) + (f 0 x * 256 ^ length xs + foldl f 0 xs)"
      by (simp add: algebra_simps)
    also have "f 0 x * 256 ^ length xs + foldl f 0 xs = foldl f (f 0 x) xs"
      by (rule Cons.IH [symmetric])
    also have "\<dots> = foldl f 0 (x # xs)" by simp
    finally show ?case .
  qed
  have "SetBytes (b # bs) = foldl f (f 0 b) bs"
    by (simp add: SetBytes_def f_def)
  also have "\<dots> = f 0 b * 256 ^ length bs + foldl f 0 bs" by (rule shift)
  also have "f 0 b = uint b" by (simp add: f_def)
  also have "foldl f 0 bs = SetBytes bs" by (simp add: SetBytes_def f_def)
  finally show ?thesis .
qed

lemma big_endian_Cons: "big_endian (b # bs) = uint b * 256 ^ length bs + big_endian bs"
  unfolding big_endian_def by (simp add: sum.lessThan_Suc_shift del: sum.lessThan_Suc)

lemma SetBytes_big_endian: "SetBytes buf = big_endian buf"
proof (induction buf)
  case Nil
  show ?case by (simp add: SetBytes_Nil big_endian_def)
next
  case (Cons b bs)
  then show ?case by (simp add: SetBytes_Cons big_endian_Cons)
qed

lemma SetBytes_nonneg: "0 \<le> SetBytes buf"
  by (induction buf) (simp_all add: SetBytes_Nil SetBytes_Cons)

lemma SetBytes_less: "SetBytes buf < 256 ^ length buf"
proof (induction buf)
  case Nil
  show ?case by (simp add: SetBytes_Nil)
next
  case (Cons b bs)
  define P :: int where "P = 256 ^ length bs"
  have "uint b \<le> 255"
    using uint_bounded [of b] by simp
  moreover have "0 \<le> P" by (simp add: P_def)
  ultimately have "uint b * P \<le> 255 * P"
    by (rule mult_right_mono)
  moreover have "SetBytes bs < P" using Cons.IH by (simp add: P_def)
  ultimately have "uint b * P + SetBytes bs < 256 * P" by linarith
  then show ?case by (simp add: SetBytes_Cons P_def)
qed

lemma SetBytes_lower:
  assumes "b \<noteq> 0"
  shows "256 ^ length bs \<le> SetBytes (b # bs)"
proof -
  define P :: int where "P = 256 ^ length bs"
  have "uint b \<noteq> 0" using assms by (simp add: uint_0_iff)
  moreover have "0 \<le> uint b" by simp
  ultimately have "1 \<le> uint b" by linarith
  moreover have "0 \<le> P" by (simp add: P_def)
  ultimately have "1 * P \<le> uint b * P"
    by (rule mult_right_mono)
  with SetBytes_nonneg [of bs] have "P \<le> uint b * P + SetBytes bs" by linarith
  then show ?thesis by (simp add: SetBytes_Cons P_def)
qed

lemma SetBytes_length_differ:
  assumes "length s < length (b # bs)" and "b \<noteq> 0"
  shows "SetBytes s \<noteq> SetBytes (b # bs)"
proof -
  have "SetBytes s < 256 ^ length s" by (rule SetBytes_less)
  also have "\<dots> \<le> (256::int) ^ length bs"
    using assms(1) by (intro power_increasing) simp_all
  also have "\<dots> \<le> SetBytes (b # bs)" by (rule SetBytes_lower [OF assms(2)])
  finally show ?thesis by simp
qed

lemma serial_length_differ:
  assumes "length s < length l" and "\<not> leading_zero l"
  shows "SetBytes (string_bytes s) \<noteq> SetBytes (string_bytes l)"
proof (cases l)
  case Nil
  with assms(1) show ?thesis by simp
next
  case (Cons c cs)
  with assms(2) have "c \<noteq> CHR 0x00" by (simp add: leading_zero_def)
  then have nz: "(word_of_nat (of_char c) :: byte) \<noteq> 0" by (simp add: byte_of_char_zero)
  have "length (string_bytes s) < length (word_of_nat (of_char c) # string_bytes cs)"
    using assms(1) Cons by (simp add: string_bytes_def)
  from SetBytes_length_differ [OF this nz] show ?thesis
    by (simp add: Cons string_bytes_def)
qed

text \<open>A zero byte in front changes the length of an id and not the number it denotes.\<close>

lemma serial_leading_zero:
  "SetBytes (string_bytes (CHR 0x00 # s)) = SetBytes (string_bytes s)"
  by (simp add: string_bytes_def SetBytes_Cons)

text \<open>
  Claim C3, as stated, fails: the id made of a zero byte followed by \<open>A\<close> (two
  bytes) and the id \<open>A\<close> (one byte) have different lengths and both give the serial
  number 65.
\<close>

theorem serial_number_collision:
  "length [CHR 0x00, CHR ''A''] \<noteq> length ''A''
   \<and> map_sum id SerialNumber
       (CreateCertificateTemplate example_key_pkg (example_descriptor [CHR 0x00, CHR ''A''] ''a.com'' []))
     = Inr 65
   \<and> map_sum id SerialNumber
       (CreateCertificateTemplate example_key_pkg (example_descriptor ''A'' ''a.com'' []))
     = Inr 65"
proof -
  obtain t where t:
    "CreateCertificateTemplate example_key_pkg (example_descriptor ''A'' ''a.com'' []) = Inr t"
    using example_builds by blast
  obtain u where u:
    "CreateCertificateTemplate example_key_pkg (example_descriptor [CHR 0x00, CHR ''A''] ''a.com'' []) = Inr u"
    using example_builds by blast
  have "SerialNumber t = 65"
    using CreateCertificateTemplate_SerialNumber [OF t]
    by (simp add: example_descriptor_def SetBytes_def string_bytes_def)
  moreover have "SerialNumber u = 65"
    using CreateCertificateTemplate_SerialNumber [OF u]
    by (simp add: example_descriptor_def SetBytes_def string_bytes_def)
  ultimately show ?thesis by (simp add: t u)
qed

text \<open>
  Claim C3, amended. The serial number is the big-endian value of the bytes of the id.
  Two ids of different lengths give different serial numbers when the longer one does not
  begin with a zero byte (so \<open>A\<close> and \<open>AA\<close> differ), and equal ids give equal
  serial numbers.
\<close>

theorem serial_number_big_endian:
  assumes "CreateCertificateTemplate kp d1 = Inr t1"
    and "CreateCertificateTemplate kp d2 = Inr t2"
  shows "SerialNumber t1 = big_endian (string_bytes (Id d1))
       \<and> (length (Id d1) < length (Id d2) \<and> \<not> leading_zero (Id d2)
            \<longrightarrow> SerialNumber t1 \<noteq> SerialNumber t2)
       \<and> (Id d1 = Id d2 \<longrightarrow> SerialNumber t1 = SerialNumber t2)"
  by (simp add: CreateCertificateTemplate_SerialNumber [OF assms(1)]
      CreateCertificateTemplate_SerialNumber [OF assms(2)] serial_length_differ
      SetBytes_big_endian [symmetric])

theorem serial_number_big_endian_witness:
  "length ''A'' < length ''AA'' \<and> \<not> leading_zero ''AA''
   \<and> map_sum id SerialNumber
       (CreateCertificateTemplate example_key_pkg (example_descriptor ''A'' ''a.com'' []))
     = Inr 65
   \<and> map_sum id SerialNumber
       (CreateCertificateTemplate example_key_pkg (example_descriptor ''AA'' ''a.com'' []))
     = Inr 16705"
proof -
  obtain t where t:
    "CreateCertificateTemplate example_key_pkg (example_descriptor ''A'' ''a.com'' []) = Inr t"
    using example_builds by blast
  obtain u where u:
    "CreateCertificateTemplate example_key_pkg (example_descriptor ''AA'' ''a.com'' []) = Inr u"
    using example_builds by blast
  from serial_number_big_endian [OF t u]
  have "SerialNumber t = 65 \<and> SerialNumber t \<noteq> SerialNumber u"
    by (simp add: example_descriptor_def leading_zero_def big_endian_def string_bytes_def)
  moreover from serial_number_big_endian [OF u t]
  have "SerialNumber u = 16705"
    by (simp add: example_descriptor_def leading_zero_def big_endian_def string_bytes_def)
  ultimately show ?thesis by (simp add: t u leading_zero_def)
qed

subsection \<open>CheckCertificate\<close>

lemma foldl_insert_set: "foldl (\<lambda>pool cert. insert cert pool) A cs = A \<union> set cs"
  by (induction cs arbitrary: A) auto

text \<open>
  The two ways the function returns: \<open>true\<close> when root and leaf parse and \<open>Verify\<close>
  of the leaf succeeds against the one-root pool, the pool of the parsed intermediates
  (empty after a failed parse) and the host name; \<open>false\<close> when root and leaf parse and
  \<open>Verify\<close> returns an error.
\<close>

lemma CheckCertificate_True_iff:
  "CheckCertificate x dnsName caBytes interCaBytes clientBytes = Inr True \<longleftrightarrow>
     (\<exists>root leaf. ParseCertificate x caBytes = Some root
        \<and> ParseCertificate x clientBytes = Some leaf
        \<and> Verify x leaf \<lparr>DNSName = dnsName, Roots = {root},
             Intermediates = (case ParseCertificates x interCaBytes of None \<Rightarrow> {} | Some cs \<Rightarrow> set cs)\<rparr>
            = None)"
  by (cases "ParseCertificate x caBytes"; cases "ParseCertificate x clientBytes";
      cases "ParseCertificates x interCaBytes")
     (auto simp add: CheckCertificate_def NewCertPool_def foldl_insert_set Let_def split: option.splits)

lemma CheckCertificate_False_iff:
  "CheckCertificate x dnsName caBytes interCaBytes clientBytes = Inr False \<longleftrightarrow>
     (\<exists>root leaf e. ParseCertificate x caBytes = Some root
        \<and> ParseCertificate x clientBytes = Some leaf
        \<and> Verify x leaf \<lparr>DNSName = dnsName, Roots = {root},
             Intermediates = (case ParseCertificates x interCaBytes of None \<Rightarrow> {} | Some cs \<Rightarrow> set cs)\<rparr>
            = Some e)"
  by (cases "ParseCertificate x caBytes"; cases "ParseCertificate x clientBytes";
      cases "ParseCertificates x interCaBytes")
     (auto simp add: CheckCertificate_def NewCertPool_def foldl_insert_set Let_def split: option.splits)

text \<open>
  Intermediates that do not parse are dropped, and the verification goes on with an empty
  pool: the call can return \<open>true\<close>.
\<close>

lemma CheckCertificate_swallows_intermediates:
  "ParseCertificates example_x509_pkg [0xFF] = None
   \<and> CheckCertificate example_x509_pkg ''example.com'' [0x30, 1] [0xFF] [0x30, 1] = Inr True"
  by (simp add: CheckCertificate_def example_x509_pkg_def NewCertPool_def)

lemma CheckCertificate_leaf_panic_value:
  "CheckCertificate example_x509_pkg ''example.com'' [0x30, 1] [] []
     = Inl (Panic ''invalid memory address or nil pointer dereference'')"
  by (simp add: CheckCertificate_def example_x509_pkg_def NewCertPool_def)

lemma CheckCertificate_root_panic_value:
  "CheckCertificate example_x509_pkg ''example.com'' [] [] [0x30, 1]
     = Inl (Panic ''adding nil Certificate to CertPool'')"
  by (simp add: CheckCertificate_def example_x509_pkg_def NewCertPool_def)

text \<open>
  Claim C2 (the code departs from it). When the bytes of the root or of the leaf do not
  parse, \<open>CheckCertificate\<close> does not return \<open>false\<close>: it ends in a panic, on the
  \<open>nil\<close> certificate handed to \<open>AddCert\<close> or on the \<open>nil\<close> receiver of
  \<open>Verify\<close>.
\<close>

theorem CheckCertificate_parse_failure_panics:
  assumes "ParseCertificate x caBytes = None \<or> ParseCertificate x clientBytes = None"
  shows "\<exists>msg. CheckCertificate x dnsName caBytes interCaBytes clientBytes = Inl (Panic msg)"
  using assms
  by (cases "ParseCertificate x caBytes")
     (auto simp add: CheckCertificate_def Let_def)

theorem CheckCertificate_parse_failure_panics_witness:
  "ParseCertificate example_x509_pkg [] = None
   \<and> (\<exists>msg. CheckCertificate example_x509_pkg ''example.com'' [0x30, 1] [] [] = Inl (Panic msg))"
proof -
  have p: "ParseCertificate example_x509_pkg [] = None"
    by (simp add: example_x509_pkg_def)
  then have "ParseCertificate example_x509_pkg [0x30, 1] = None
           \<or> ParseCertificate example_x509_pkg [] = None"
    by simp
  from CheckCertificate_parse_failure_panics [OF this] p show ?thesis by simp
qed

end
